theory Spec2Isabelle
  imports Complex_Main "HOL-Library.Multiset" "HOL-Library.Log_Nat"
begin

section \<open>Data model\<close>

text \<open>
  The \<^verbatim>\<open>Post\<close> interface of both screens. The two optional fields are \<open>None\<close> when the
  JavaScript property is \<^verbatim>\<open>undefined\<close>. The vote counts are JSON numbers that the data model
  takes as integers: a field holds the integer value of the double. The record is used through its scheme \<open>'a post_scheme\<close>: the
  \<open>more\<close> part stands for every further property the service sends, which the object
  spread \<^verbatim>\<open>{ ...post, PromptText, Category }\<close> copies as well.
\<close>

record post =
  PostID :: string
  PromptID :: string
  PostText :: string
  UpvoteCount :: int
  DownvoteCount :: int
  PromptText :: "string option"
  Category :: "string option"

text \<open>
  What \<^verbatim>\<open>await promptResponse.json()\<close> yields: \<^verbatim>\<open>null\<close> (destructuring it throws a
  TypeError), or a value whose properties \<^verbatim>\<open>PromptText\<close> and \<^verbatim>\<open>Category\<close> are read
  (\<open>None\<close> for a property that is missing).
\<close>

datatype prompt_json = JsonNull | JsonObject "string option" "string option"

text \<open>
  The outcome of one \<^verbatim>\<open>fetch\<close>: the promise rejects (\<open>NetworkError\<close>), or it
  resolves to a response with its \<^verbatim>\<open>ok\<close> flag and a body that \<^verbatim>\<open>.json()\<close> either fails
  to decode or decodes.
\<close>

datatype 'a body = Undecodable | Decoded 'a

datatype 'a response = NetworkError | HttpResponse bool "'a body"

text \<open>
  JavaScript numbers: \<^verbatim>\<open>NaN\<close>, the two infinities, and a finite double carried as the
  rational number it denotes.
\<close>

datatype jsnumber = NaN | PosInfinity | NegInfinity | Finite rat

text \<open>The observable effects of the code, in the order they happen.\<close>

datatype effect =
    Fetch string
  | ConsoleLog string
  | ConsoleLogVotes jsnumber
  | ConsoleError string
  | Navigate_Replies jsnumber jsnumber

section \<open>Arithmetic on JavaScript numbers\<close>

text \<open>
  Rounding of an exact value to the nearest double (IEEE 754 binary64, ties to even):
  the value is scaled so that its significand has 53 bits (fewer below the smallest normal
  number, where the exponent stays at \<open>-1074\<close>), the significand is rounded to an integer,
  and a result of magnitude \<open>2 ^ 1024\<close> or more is an infinity. The two zeros are not
  told apart.
\<close>

definition pow2 :: "int \<Rightarrow> rat" where
  "pow2 e = (if 0 \<le> e then 2 ^ nat e else 1 / 2 ^ nat (- e))"

definition roundHalfEven :: "rat \<Rightarrow> int" where
  "roundHalfEven x =
     (let f = \<lfloor>x\<rfloor>; r = x - of_int f in
      if r < 1 / 2 then f
      else if 1 / 2 < r then f + 1
      else if even f then f else f + 1)"

text \<open>The integer \<open>k\<close> with \<open>2 ^ k \<le> a < 2 ^ (k + 1)\<close>, for a positive \<open>a\<close>.\<close>

definition floorLog2 :: "rat \<Rightarrow> int" where
  "floorLog2 a =
     (case quotient_of a of
        (n, d) \<Rightarrow> (let k = bitlen n - bitlen d in if pow2 k \<le> a then k else k - 1))"

definition roundToDouble :: "rat \<Rightarrow> jsnumber" where
  "roundToDouble q =
     (if q = 0 then Finite 0
      else
        (let a = \<bar>q\<bar>;
             e = max (floorLog2 a - 52) (- 1074);
             v = of_int (roundHalfEven (a / pow2 e)) * pow2 e in
         if 2 ^ 1024 \<le> v then (if q < 0 then NegInfinity else PosInfinity)
         else Finite (if q < 0 then - v else v)))"

text \<open>The operator \<^verbatim>\<open>+\<close> on two numbers.\<close>

fun js_add :: "jsnumber \<Rightarrow> jsnumber \<Rightarrow> jsnumber" where
  "js_add NaN y = NaN"
| "js_add x NaN = NaN"
| "js_add PosInfinity NegInfinity = NaN"
| "js_add NegInfinity PosInfinity = NaN"
| "js_add PosInfinity y = PosInfinity"
| "js_add x PosInfinity = PosInfinity"
| "js_add NegInfinity y = NegInfinity"
| "js_add x NegInfinity = NegInfinity"
| "js_add (Finite a) (Finite b) = roundToDouble (a + b)"

text \<open>
  The number held by a vote count: the counts are integer-valued doubles, and the field of
  the record holds that integer.
\<close>

definition jsNum :: "int \<Rightarrow> jsnumber" where
  "jsNum n = Finite (of_int n)"

section \<open>Prompt enrichment\<close>

definition promptUrl :: "'a post_scheme \<Rightarrow> string" where
  "promptUrl post = ''http://34.139.77.174/api/prompt/'' @ PromptID post"

text \<open>
  The body of the callback mapped over the posts, after its \<^verbatim>\<open>fetch\<close> has settled (the
  same text in \<^verbatim>\<open>ProfileScreen.tsx\<close> lines 107-121 and \<^verbatim>\<open>Trending.tsx\<close> lines
  106-120): the value the callback's promise resolves to, and what it writes to the console.
  Both \<^verbatim>\<open>return\<close>s of the fallback and the \<^verbatim>\<open>catch\<close> are branches; the callback never
  rejects.
\<close>

fun enrichPost :: "'a post_scheme \<Rightarrow> prompt_json response \<Rightarrow> 'a post_scheme \<times> effect list" where
  "enrichPost post NetworkError =
     (post\<lparr>PromptText := Some '''', Category := Some ''''\<rparr>, [ConsoleError ''Error fetching prompt:''])"
| "enrichPost post (HttpResponse ok b) =
     (if \<not> ok then
        (post\<lparr>PromptText := Some '''', Category := Some ''''\<rparr>,
         [ConsoleError ''Failed to fetch prompt for post:''])
      else (case b of
          Undecodable \<Rightarrow>
            (post\<lparr>PromptText := Some '''', Category := Some ''''\<rparr>,
             [ConsoleError ''Error fetching prompt:''])
        | Decoded JsonNull \<Rightarrow>
            (post\<lparr>PromptText := Some '''', Category := Some ''''\<rparr>,
             [ConsoleError ''Error fetching prompt:''])
        | Decoded (JsonObject promptText category) \<Rightarrow>
            (post\<lparr>PromptText := promptText, Category := category\<rparr>, [])))"

text \<open>
  \<^verbatim>\<open>Promise.all\<close> over \<open>n\<close> pending promises. The schedule lists the tasks in the order
  their promises settle. When task \<open>i\<close> settles, its value is stored in slot \<open>i\<close> of the
  result array and its console output is appended to the trace; a promise settles once, so
  a later entry for the same task (or an index that is no task) changes nothing. The
  combined promise resolves, with the slots in index order, once every slot is filled; it
  stays pending (\<open>None\<close>) when some task never settles.
\<close>

fun settle_all ::
  "(nat \<Rightarrow> 'v \<times> effect list) \<Rightarrow> nat list \<Rightarrow> 'v option list \<times> effect list \<Rightarrow> 'v option list \<times> effect list" where
  "settle_all task [] st = st"
| "settle_all task (i # sched) (slots, tr) =
     (if i < length slots \<and> slots ! i = None
      then (case task i of (v, es) \<Rightarrow> settle_all task sched (slots[i := Some v], tr @ es))
      else settle_all task sched (slots, tr))"

definition Promise_all ::
  "nat \<Rightarrow> (nat \<Rightarrow> 'v \<times> effect list) \<Rightarrow> nat list \<Rightarrow> 'v list option \<times> effect list" where
  "Promise_all n task sched =
     (case settle_all task sched (replicate n None, []) of
        (slots, tr) \<Rightarrow>
          (if list_all (\<lambda>s. s \<noteq> None) slots then Some (map the slots) else None, tr))"

text \<open>
  The fan-out of both screens: \<open>resp i\<close> is the outcome of the prompt fetch issued for
  the post at index \<open>i\<close> (posts that share a prompt identifier are fetched separately and
  may get different outcomes).
\<close>

definition enrichAll ::
  "'a post_scheme list \<Rightarrow> (nat \<Rightarrow> prompt_json response) \<Rightarrow> nat list
     \<Rightarrow> 'a post_scheme list option \<times> effect list" where
  "enrichAll ps resp sched =
     Promise_all (length ps) (\<lambda>i. enrichPost (ps ! i) (resp i)) sched"

section \<open>Numeric conversion of identifiers\<close>

text \<open>
  \<^verbatim>\<open>Number(string)\<close> as ECMAScript's StringToNumber defines it, on strings of code units
  below 256: white space (the ASCII white space characters and the no-break space) is
  trimmed, the empty string is \<open>0\<close>, and the rest must be a StrNumericLiteral (a signed
  decimal literal with optional fraction and exponent, \<^verbatim>\<open>Infinity\<close>, or an unsigned binary,
  octal or hexadecimal integer literal), whose value is rounded to a double; every other
  string converts to \<open>NaN\<close>.
\<close>

definition isStrWhiteSpaceChar :: "char \<Rightarrow> bool" where
  "isStrWhiteSpaceChar c \<longleftrightarrow> (of_char c :: nat) \<in> {9, 10, 11, 12, 13, 32, 160}"

definition trim :: "string \<Rightarrow> string" where
  "trim s = rev (dropWhile isStrWhiteSpaceChar (rev (dropWhile isStrWhiteSpaceChar s)))"

definition digitOf :: "char \<Rightarrow> nat option" where
  "digitOf c =
     (let n = (of_char c :: nat) in
      if 48 \<le> n \<and> n \<le> 57 then Some (n - 48)
      else if 97 \<le> n \<and> n \<le> 102 then Some (n - 87)
      else if 65 \<le> n \<and> n \<le> 70 then Some (n - 55)
      else None)"

definition isDigitOf :: "nat \<Rightarrow> char \<Rightarrow> bool" where
  "isDigitOf base c = (case digitOf c of Some d \<Rightarrow> d < base | None \<Rightarrow> False)"

definition digitsValue :: "nat \<Rightarrow> string \<Rightarrow> int" where
  "digitsValue base s =
     foldl (\<lambda>acc c. acc * int base + (case digitOf c of Some d \<Rightarrow> int d | None \<Rightarrow> 0)) 0 s"

definition DecimalDigits :: "string \<Rightarrow> int option" where
  "DecimalDigits s =
     (if s \<noteq> [] \<and> list_all (isDigitOf 10) s then Some (digitsValue 10 s) else None)"

definition ExponentPart_opt :: "string \<Rightarrow> int option" where
  "ExponentPart_opt s =
     (case s of
        [] \<Rightarrow> Some 0
      | c # r \<Rightarrow>
          if c = CHR ''e'' \<or> c = CHR ''E'' then
            (case r of
               [] \<Rightarrow> None
             | d # r' \<Rightarrow>
                 if d = CHR ''+'' then DecimalDigits r'
                 else if d = CHR ''-'' then map_option uminus (DecimalDigits r')
                 else DecimalDigits r)
          else None)"

definition scale10 :: "int \<Rightarrow> int \<Rightarrow> rat" where
  "scale10 m e = (if 0 \<le> e then of_int m * 10 ^ nat e else of_int m / 10 ^ nat (- e))"

definition StrUnsignedDecimalLiteral :: "string \<Rightarrow> jsnumber" where
  "StrUnsignedDecimalLiteral s =
     (if s = ''Infinity'' then PosInfinity
      else
        (let ip = takeWhile (isDigitOf 10) s; r = dropWhile (isDigitOf 10) s in
         case r of
           [] \<Rightarrow> (if ip = [] then NaN else roundToDouble (of_int (digitsValue 10 ip)))
         | c # r' \<Rightarrow>
             if c = CHR ''.'' then
               (let fp = takeWhile (isDigitOf 10) r'; r2 = dropWhile (isDigitOf 10) r' in
                if ip = [] \<and> fp = [] then NaN
                else (case ExponentPart_opt r2 of
                        None \<Rightarrow> NaN
                      | Some e \<Rightarrow> roundToDouble (scale10 (digitsValue 10 (ip @ fp)) (e - int (length fp)))))
             else if ip = [] then NaN
             else (case ExponentPart_opt r of
                     None \<Rightarrow> NaN
                   | Some e \<Rightarrow> roundToDouble (scale10 (digitsValue 10 ip) e))))"

definition NonDecimalIntegerLiteral :: "string \<Rightarrow> int option" where
  "NonDecimalIntegerLiteral s =
     (case s of
        z # x # ds \<Rightarrow>
          if z = CHR ''0'' \<and> ds \<noteq> [] then
            (if (x = CHR ''x'' \<or> x = CHR ''X'') \<and> list_all (isDigitOf 16) ds then Some (digitsValue 16 ds)
             else if (x = CHR ''o'' \<or> x = CHR ''O'') \<and> list_all (isDigitOf 8) ds then Some (digitsValue 8 ds)
             else if (x = CHR ''b'' \<or> x = CHR ''B'') \<and> list_all (isDigitOf 2) ds then Some (digitsValue 2 ds)
             else None)
          else None
      | _ \<Rightarrow> None)"

fun negate :: "jsnumber \<Rightarrow> jsnumber" where
  "negate NaN = NaN"
| "negate PosInfinity = NegInfinity"
| "negate NegInfinity = PosInfinity"
| "negate (Finite r) = Finite (- r)"

definition Number :: "string \<Rightarrow> jsnumber" where
  "Number str =
     (let s = trim str in
      case s of
        [] \<Rightarrow> Finite 0
      | c # r \<Rightarrow>
          (case NonDecimalIntegerLiteral s of
             Some n \<Rightarrow> roundToDouble (of_int n)
           | None \<Rightarrow>
               if c = CHR ''+'' then StrUnsignedDecimalLiteral r
               else if c = CHR ''-'' then negate (StrUnsignedDecimalLiteral r)
               else StrUnsignedDecimalLiteral s))"

definition isNaN :: "jsnumber \<Rightarrow> bool" where
  "isNaN x \<longleftrightarrow> x = NaN"

section \<open>Navigation to the Replies route\<close>

text \<open>
  \<^verbatim>\<open>navigation.navigate\<close> belongs to the navigation library: the call either returns or
  throws. A handler either returns to its caller or lets an exception through.
\<close>

datatype navigate_outcome = NavigateReturns | NavigateThrows

datatype completion = Returned | Threw

text \<open>\<^verbatim>\<open>handlePostPress\<close> of \<^verbatim>\<open>Trending.tsx\<close>.\<close>

definition handlePostPress :: "navigate_outcome \<Rightarrow> string \<Rightarrow> string \<Rightarrow> completion \<times> effect list" where
  "handlePostPress nav postId promptId =
     (let numericPostId = Number postId; numericPromptId = Number promptId in
      if isNaN numericPostId \<or> isNaN numericPromptId then
        (Returned, [ConsoleError ''Invalid postId or promptId format''])
      else
        (case nav of
           NavigateReturns \<Rightarrow> (Returned, [Navigate_Replies numericPostId numericPromptId])
         | NavigateThrows \<Rightarrow>
             (Returned, [Navigate_Replies numericPostId numericPromptId, ConsoleError ''Navigation error:''])))"

text \<open>\<^verbatim>\<open>navigateToReplies\<close> of \<^verbatim>\<open>ProfileScreen.tsx\<close>.\<close>

definition navigateToReplies :: "navigate_outcome \<Rightarrow> string \<Rightarrow> string \<Rightarrow> completion \<times> effect list" where
  "navigateToReplies nav postId promptId =
     (case nav of NavigateReturns \<Rightarrow> Returned | NavigateThrows \<Rightarrow> Threw,
      [Navigate_Replies (Number postId) (Number promptId)])"

section \<open>The profile screen\<close>

record 'a ProfileScreen_state =
  posts :: "'a post_scheme list"
  isLoading :: bool
  error :: "string option"
  username :: string
  userLoading :: bool
  controversyScore :: jsnumber

definition ProfileScreen_init :: "'a ProfileScreen_state" where
  "ProfileScreen_init =
     \<lparr>posts = [], isLoading = True, error = None, username = '''', userLoading = True,
      controversyScore = Finite 0\<rparr>"

text \<open>\<^verbatim>\<open>AsyncStorage.getItem('UserID')\<close>: it rejects, or yields the stored string or \<^verbatim>\<open>null\<close>.\<close>

datatype storage = GetItemThrows | GetItem "string option"

fun getUserId :: "storage \<Rightarrow> string option \<times> effect list" where
  "getUserId (GetItem (Some userId)) = (Some userId, [])"
| "getUserId (GetItem None) = (None, [ConsoleLog ''User not logged in''])"
| "getUserId GetItemThrows = (None, [ConsoleError ''Error retrieving userId from AsyncStorage''])"

record UserData =
  UserID :: string
  Username :: string

text \<open>
  \<^verbatim>\<open>fetchUserData\<close>. The decoded body is \<open>None\<close> when it is \<^verbatim>\<open>null\<close> (reading
  \<^verbatim>\<open>Username\<close> then throws). \<^verbatim>\<open>!userId\<close> holds for \<^verbatim>\<open>null\<close> and for the empty string.
\<close>

definition fetchUserData ::
  "storage \<Rightarrow> UserData option response \<Rightarrow> 'a ProfileScreen_state \<Rightarrow> 'a ProfileScreen_state \<times> effect list" where
  "fetchUserData store response st =
     (let st1 = st\<lparr>userLoading := True\<rparr> in
      case getUserId store of
        (userId, es0) \<Rightarrow>
          (let noUser = (st1\<lparr>error := Some ''User ID is not available'', userLoading := False\<rparr>, es0) in
           case userId of
             None \<Rightarrow> noUser
           | Some uid \<Rightarrow>
               if uid = [] then noUser
               else
                 (let url = ''http://34.139.77.174/api/user/'' @ uid;
                      failed = (st1\<lparr>error := Some ''Failed to load user data'', userLoading := False\<rparr>,
                                es0 @ [Fetch url, ConsoleError ''Error fetching user data:'']) in
                  case response of
                    NetworkError \<Rightarrow> failed
                  | HttpResponse ok b \<Rightarrow>
                      if \<not> ok then failed
                      else (case b of
                              Undecodable \<Rightarrow> failed
                            | Decoded None \<Rightarrow> failed
                            | Decoded (Some userData) \<Rightarrow>
                                (st1\<lparr>username := Username userData, userLoading := False\<rparr>,
                                 es0 @ [Fetch url])))))"

text \<open>
  The part of the callback of \<^verbatim>\<open>data.posts.map\<close> that runs before its first
  \<^verbatim>\<open>await\<close>: \<^verbatim>\<open>map\<close> calls it for each post in turn, and each call adds the post's votes
  to \<^verbatim>\<open>totalVotes\<close>, logs the running total and issues the prompt request.
\<close>

fun ProfileScreen_dispatch :: "jsnumber \<Rightarrow> 'a post_scheme list \<Rightarrow> jsnumber \<times> effect list" where
  "ProfileScreen_dispatch totalVotes [] = (totalVotes, [])"
| "ProfileScreen_dispatch totalVotes (post # rest) =
     (let totalVotes' =
            js_add totalVotes (js_add (jsNum (UpvoteCount post)) (jsNum (DownvoteCount post))) in
      case ProfileScreen_dispatch totalVotes' rest of
        (t, es) \<Rightarrow> (t, ConsoleLogVotes totalVotes' # Fetch (promptUrl post) # es))"

text \<open>
  \<^verbatim>\<open>fetchPosts\<close> of the profile screen. The decoded body is \<open>None\<close> when it has no array
  under \<^verbatim>\<open>posts\<close> (calling \<^verbatim>\<open>map\<close> then throws). When the fan-out never resolves the
  function stays suspended at its \<^verbatim>\<open>await\<close> and only \<^verbatim>\<open>setIsLoading(true)\<close> has happened.
\<close>

definition ProfileScreen_fetchPosts ::
  "storage \<Rightarrow> 'a post_scheme list option response \<Rightarrow> (nat \<Rightarrow> prompt_json response) \<Rightarrow> nat list
     \<Rightarrow> 'a ProfileScreen_state \<Rightarrow> 'a ProfileScreen_state \<times> effect list" where
  "ProfileScreen_fetchPosts store response resp sched st =
     (let st1 = st\<lparr>isLoading := True\<rparr> in
      case getUserId store of
        (userId, es0) \<Rightarrow>
          (let noUser = (st1\<lparr>error := Some ''User ID is not available'', isLoading := False\<rparr>, es0) in
           case userId of
             None \<Rightarrow> noUser
           | Some uid \<Rightarrow>
               if uid = [] then noUser
               else
                 (let url = ''http://34.139.77.174/api/user/'' @ uid @ ''/posts'';
                      failed = (st1\<lparr>error := Some ''Failed to load posts'', isLoading := False\<rparr>,
                                es0 @ [Fetch url, ConsoleError ''Error fetching posts:'']) in
                  case response of
                    NetworkError \<Rightarrow> failed
                  | HttpResponse ok b \<Rightarrow>
                      (case b of
                         Undecodable \<Rightarrow> failed
                       | Decoded None \<Rightarrow> failed
                       | Decoded (Some data_posts) \<Rightarrow>
                           (case ProfileScreen_dispatch (Finite 0) data_posts of
                              (totalVotes, started) \<Rightarrow>
                                (case enrichAll data_posts resp sched of
                                   (None, tr) \<Rightarrow> (st1, es0 @ Fetch url # started @ tr)
                                 | (Some postsWithPrompts, tr) \<Rightarrow>
                                     (st1\<lparr>posts := postsWithPrompts, controversyScore := totalVotes,
                                          isLoading := False\<rparr>,
                                      es0 @ Fetch url # started @ tr)))))))"

text \<open>
  What a post card shows and what pressing it passes to the navigation handler. The
  React key is not shown and is left out.
\<close>

record card =
  cardPrompt :: "string option"
  cardText :: string
  cardNumber :: jsnumber
  cardPress :: "string \<times> string"

datatype posts_view = ActivityIndicator | ErrorText string | EmptyText string | Cards "card list"

definition ProfileScreen_card :: "'a post_scheme \<Rightarrow> card" where
  "ProfileScreen_card post =
     \<lparr>cardPrompt =
        Some (case PromptText post of
                None \<Rightarrow> ''No prompt available''
              | Some t \<Rightarrow> if t = [] then ''No prompt available'' else t),
      cardText = PostText post,
      cardNumber = jsNum (UpvoteCount post),
      cardPress = (PostID post, PromptID post)\<rparr>"

text \<open>\<^verbatim>\<open>renderPosts\<close>. \<^verbatim>\<open>if (error)\<close> holds for a string that is not empty.\<close>

definition renderPosts :: "'a ProfileScreen_state \<Rightarrow> posts_view" where
  "renderPosts st =
     (if isLoading st then ActivityIndicator
      else
        (case error st of
           Some (c # cs) \<Rightarrow> ErrorText (c # cs)
         | _ \<Rightarrow>
             if length (posts st) = 0 then EmptyText ''No posts yet''
             else Cards (map ProfileScreen_card (posts st))))"

section \<open>The trending screen\<close>

record 'a Trending_state =
  postsT :: "'a post_scheme list"
  loading :: bool
  selectedCategory :: string

definition Trending_init :: "'a Trending_state" where
  "Trending_init = \<lparr>postsT = [], loading = True, selectedCategory = ''all''\<rparr>"

text \<open>The identifiers and labels of the category buttons (the icons are left out).\<close>

definition categories :: "(string \<times> string) list" where
  "categories =
     [(''sports'', ''Sports''), (''music'', ''Music''), (''movies'', ''Movies''), (''food'', ''Food''),
      (''fashion'', ''Fashion''), (''tech'', ''Tech''), (''travel'', ''Travel''),
      (''politics'', ''Politics''), (''health'', ''Health''), (''fitness'', ''Fitness'')]"

definition handleCategoryPress :: "string \<Rightarrow> 'a Trending_state \<Rightarrow> 'a Trending_state" where
  "handleCategoryPress categoryId st =
     st\<lparr>selectedCategory := (if selectedCategory st = categoryId then ''all'' else categoryId)\<rparr>"

text \<open>
  \<^verbatim>\<open>Array.prototype.sort\<close> with a comparison function: a stable sort (ECMAScript 2019),
  here by insertion. \<open>x\<close> goes before \<open>y\<close> when the comparison is not positive.
\<close>

fun insert_by :: "('x \<Rightarrow> 'x \<Rightarrow> int) \<Rightarrow> 'x \<Rightarrow> 'x list \<Rightarrow> 'x list" where
  "insert_by cmp x [] = [x]"
| "insert_by cmp x (y # ys) = (if cmp x y \<le> 0 then x # y # ys else y # insert_by cmp x ys)"

definition Array_sort :: "('x \<Rightarrow> 'x \<Rightarrow> int) \<Rightarrow> 'x list \<Rightarrow> 'x list" where
  "Array_sort cmp xs = foldr (insert_by cmp) xs []"

text \<open>
  The comparison function of \<^verbatim>\<open>fetchPosts\<close>: \<^verbatim>\<open>(a, b) => b.UpvoteCount - a.UpvoteCount\<close>.
  Only its sign is used, and the rounded difference of two doubles has the sign of the
  exact difference.
\<close>

definition byUpvotesDesc :: "'a post_scheme \<Rightarrow> 'a post_scheme \<Rightarrow> int" where
  "byUpvotesDesc a b = UpvoteCount b - UpvoteCount a"

text \<open>
  \<^verbatim>\<open>fetchPosts\<close> of the trending screen. The decoded body is \<open>None\<close> when it is no array
  (calling \<^verbatim>\<open>sort\<close> then throws). The \<^verbatim>\<open>catch\<close> only writes to the console and clears
  \<^verbatim>\<open>loading\<close>: the component has no error state.
\<close>

definition Trending_fetchPosts ::
  "'a post_scheme list option response \<Rightarrow> (nat \<Rightarrow> prompt_json response) \<Rightarrow> nat list
     \<Rightarrow> 'a Trending_state \<Rightarrow> 'a Trending_state \<times> effect list" where
  "Trending_fetchPosts response resp sched st =
     (let url = ''http://34.139.77.174/api/posts'';
          failed = (st\<lparr>loading := False\<rparr>, [Fetch url, ConsoleError ''Error fetching data:'']) in
      case response of
        NetworkError \<Rightarrow> failed
      | HttpResponse ok b \<Rightarrow>
          (case b of
             Undecodable \<Rightarrow> failed
           | Decoded None \<Rightarrow> failed
           | Decoded (Some data) \<Rightarrow>
               (let sortedPosts = take 20 (Array_sort byUpvotesDesc data);
                    started = map (\<lambda>post. Fetch (promptUrl post)) sortedPosts in
                case enrichAll sortedPosts resp sched of
                  (None, tr) \<Rightarrow> (st, Fetch url # started @ tr)
                | (Some postsWithPrompts, tr) \<Rightarrow>
                    (st\<lparr>postsT := postsWithPrompts, loading := False\<rparr>, Fetch url # started @ tr))))"

definition Trending_card :: "'a post_scheme \<Rightarrow> card" where
  "Trending_card post =
     \<lparr>cardPrompt = (case PromptText post of None \<Rightarrow> None | Some t \<Rightarrow> if t = [] then None else Some t),
      cardText = PostText post,
      cardNumber = js_add (jsNum (UpvoteCount post)) (jsNum (DownvoteCount post)),
      cardPress = (PostID post, PromptID post)\<rparr>"

text \<open>
  What the component returns: the activity indicator while loading, otherwise the category
  buttons (label, and whether the button is highlighted) and one card for each post of the
  state. The title and the navigation bar are the same in every state and are left out.
\<close>

datatype trending_view = TrendingLoading | TrendingScreen "(string \<times> bool) list" "card list"

definition Trending_render :: "'a Trending_state \<Rightarrow> trending_view" where
  "Trending_render st =
     (if loading st then TrendingLoading
      else TrendingScreen
             (map (\<lambda>(cid, label). (label, selectedCategory st = cid)) categories)
             (map Trending_card (postsT st)))"

section \<open>Observations used to state the properties\<close>

text \<open>Whether an effect is a network request.\<close>

fun isFetch :: "effect \<Rightarrow> bool" where
  "isFetch (Fetch url) = True"
| "isFetch _ = False"

text \<open>
  A transport or decoding failure of a screen's primary fetch: the request is rejected,
  the body does not decode, or the decoded body has no post array where the code reads one.
\<close>

fun fetchFailed :: "'a option response \<Rightarrow> bool" where
  "fetchFailed NetworkError = True"
| "fetchFailed (HttpResponse ok Undecodable) = True"
| "fetchFailed (HttpResponse ok (Decoded None)) = True"
| "fetchFailed (HttpResponse ok (Decoded (Some v))) = False"

text \<open>The post cards of what the trending screen renders.\<close>

fun renderedCards :: "trending_view \<Rightarrow> card list" where
  "renderedCards TrendingLoading = []"
| "renderedCards (TrendingScreen buttons cards) = cards"

section \<open>Properties of the fan-out\<close>

lemma settle_all_length:
  "length (fst (settle_all task sched (slots, tr))) = length slots"
  by (induction sched arbitrary: slots tr) (auto split: prod.splits)

lemma settle_all_nth:
  "i < length slots \<Longrightarrow>
   fst (settle_all task sched (slots, tr)) ! i =
     (case slots ! i of
        Some v \<Rightarrow> Some v
      | None \<Rightarrow> (if i \<in> set sched then Some (fst (task i)) else None))"
proof (induction sched arbitrary: slots tr)
  case Nil
  then show ?case by (simp split: option.splits)
next
  case (Cons j sched)
  show ?case
  proof (cases "j < length slots \<and> slots ! j = None")
    case True
    obtain v es where t: "task j = (v, es)" by (cases "task j")
    have len: "i < length (slots[j := Some v])" using Cons.prems by simp
    show ?thesis
      using True t Cons.IH[OF len, of "tr @ es"] Cons.prems
      by (auto simp: nth_list_update split: option.splits)
  next
    case False
    then show ?thesis
      using Cons.IH[OF Cons.prems, of tr] Cons.prems by (auto split: option.splits)
  qed
qed

lemma settle_all_complete:
  assumes "{..<n} \<subseteq> set sched"
  shows "fst (settle_all task sched (replicate n None, [])) = map (\<lambda>i. Some (fst (task i))) [0..<n]"
proof (rule nth_equalityI)
  show "length (fst (settle_all task sched (replicate n None, []))) = length (map (\<lambda>i. Some (fst (task i))) [0..<n])"
    by (simp add: settle_all_length)
next
  fix i assume "i < length (fst (settle_all task sched (replicate n None, [])))"
  then have i: "i < n" by (simp add: settle_all_length)
  then have "i \<in> set sched" using assms by auto
  then show "fst (settle_all task sched (replicate n None, [])) ! i = map (\<lambda>i. Some (fst (task i))) [0..<n] ! i"
    using i settle_all_nth[of i "replicate n None" task sched "[]"] by simp
qed

lemma map_the_Some: "map the (map (\<lambda>i. Some (f i)) xs) = map f xs"
  by (induction xs) auto

lemma Promise_all_complete:
  assumes "{..<n} \<subseteq> set sched"
  shows "fst (Promise_all n task sched) = Some (map (\<lambda>i. fst (task i)) [0..<n])"
proof -
  obtain slots tr where s: "settle_all task sched (replicate n None, []) = (slots, tr)"
    by (cases "settle_all task sched (replicate n None, [])")
  have slots: "slots = map (\<lambda>i. Some (fst (task i))) [0..<n]"
    using settle_all_complete[OF assms, of task] s by simp
  have "list_all (\<lambda>s. s \<noteq> None) slots"
    unfolding slots by (simp add: list_all_iff)
  then show ?thesis
    unfolding Promise_all_def s by (simp add: slots map_the_Some)
qed

lemma enrichAll_complete:
  assumes "{..<length ps} \<subseteq> set sched"
  shows "fst (enrichAll ps resp sched) =
           Some (map (\<lambda>i. fst (enrichPost (ps ! i) (resp i))) [0..<length ps])"
  unfolding enrichAll_def by (rule Promise_all_complete[OF assms])

lemma enrichAll_nth:
  assumes "{..<length ps} \<subseteq> set sched"
  shows "\<exists>out. fst (enrichAll ps resp sched) = Some out \<and> length out = length ps \<and>
           (\<forall>i<length ps. out ! i = fst (enrichPost (ps ! i) (resp i)))"
  using enrichAll_complete[OF assms, of resp] by simp

section \<open>C1: the enriched list keeps the length and the order of the input\<close>

text \<open>
  Claim C1. Whatever the order in which the prompt fetches settle (any schedule in which
  every task settles), the fan-out of either screen resolves to a list as long as the
  input, whose entry at index \<open>i\<close> is the enrichment of the input post at index \<open>i\<close> with
  the outcome of that post's own fetch.
\<close>

theorem C1_enrichment_keeps_length_and_order:
  assumes "{..<length ps} \<subseteq> set sched"
  shows "\<exists>out. fst (enrichAll ps resp sched) = Some out \<and> length out = length ps \<and>
           (\<forall>i<length ps. out ! i = fst (enrichPost (ps ! i) (resp i)))"
  by (rule enrichAll_nth[OF assms])

theorem C1_witness:
  "{..<length [\<lparr>PostID = ''1'', PromptID = ''7'', PostText = ''a'', UpvoteCount = 5, DownvoteCount = 1,
        PromptText = None, Category = None\<rparr>,
      \<lparr>PostID = ''2'', PromptID = ''8'', PostText = ''b'', UpvoteCount = 2, DownvoteCount = 0,
        PromptText = None, Category = None\<rparr>]} \<subseteq> set [1, 0 :: nat] \<and>
   fst (enrichAll
     [\<lparr>PostID = ''1'', PromptID = ''7'', PostText = ''a'', UpvoteCount = 5, DownvoteCount = 1,
        PromptText = None, Category = None\<rparr>,
      \<lparr>PostID = ''2'', PromptID = ''8'', PostText = ''b'', UpvoteCount = 2, DownvoteCount = 0,
        PromptText = None, Category = None\<rparr>]
     (\<lambda>i. if i = 0 then HttpResponse True (Decoded (JsonObject (Some ''Q'') (Some ''music'')))
          else NetworkError)
     [1, 0]) =
   Some
     [\<lparr>PostID = ''1'', PromptID = ''7'', PostText = ''a'', UpvoteCount = 5, DownvoteCount = 1,
        PromptText = Some ''Q'', Category = Some ''music''\<rparr>,
      \<lparr>PostID = ''2'', PromptID = ''8'', PostText = ''b'', UpvoteCount = 2, DownvoteCount = 0,
        PromptText = Some '''', Category = Some ''''\<rparr>]"
  using C1_enrichment_keeps_length_and_order[of
     "[\<lparr>PostID = ''1'', PromptID = ''7'', PostText = ''a'', UpvoteCount = 5, DownvoteCount = 1,
        PromptText = None, Category = None\<rparr>,
      \<lparr>PostID = ''2'', PromptID = ''8'', PostText = ''b'', UpvoteCount = 2, DownvoteCount = 0,
        PromptText = None, Category = None\<rparr>]" "[1, 0]"
     "(\<lambda>i. if i = 0 then HttpResponse True (Decoded (JsonObject (Some ''Q'') (Some ''music'')))
          else NetworkError)"]
  by (auto simp: lessThan_Suc nth_Cons' intro!: nth_equalityI)

section \<open>C2: a failed prompt fetch falls back to empty strings\<close>

text \<open>
  Claim C2. When the prompt fetch of the post at index \<open>i\<close> fails (the request is rejected,
  or the response is not a success), the fan-out still resolves, to a list as long as the
  input, and its entry at index \<open>i\<close> is that post with \<^verbatim>\<open>PromptText\<close> and \<^verbatim>\<open>Category\<close> set to
  the empty string: the batch is not rejected and the post is not dropped.
\<close>

theorem C2_failed_prompt_falls_back:
  assumes "{..<length ps} \<subseteq> set sched"
    and "i < length ps"
    and "resp i = NetworkError \<or> (\<exists>b. resp i = HttpResponse False b)"
  shows "\<exists>out. fst (enrichAll ps resp sched) = Some out \<and> length out = length ps \<and>
           out ! i = (ps ! i)\<lparr>PromptText := Some '''', Category := Some ''''\<rparr>"
proof -
  obtain out where out: "fst (enrichAll ps resp sched) = Some out" "length out = length ps"
    "\<forall>j<length ps. out ! j = fst (enrichPost (ps ! j) (resp j))"
    using enrichAll_nth[OF assms(1), of resp] by blast
  have "fst (enrichPost (ps ! i) (resp i)) = (ps ! i)\<lparr>PromptText := Some '''', Category := Some ''''\<rparr>"
    using assms(3) by auto
  with out assms(2) show ?thesis by auto
qed

theorem C2_witness:
  "{..<length [\<lparr>PostID = ''1'', PromptID = ''7'', PostText = ''a'', UpvoteCount = 5, DownvoteCount = 1,
        PromptText = None, Category = Some ''music''\<rparr>,
      \<lparr>PostID = ''2'', PromptID = ''8'', PostText = ''b'', UpvoteCount = 2, DownvoteCount = 0,
        PromptText = None, Category = Some ''food''\<rparr>]} \<subseteq> set [1, 0 :: nat] \<and>
   (\<exists>out. fst (enrichAll
        [\<lparr>PostID = ''1'', PromptID = ''7'', PostText = ''a'', UpvoteCount = 5, DownvoteCount = 1,
           PromptText = None, Category = Some ''music''\<rparr>,
         \<lparr>PostID = ''2'', PromptID = ''8'', PostText = ''b'', UpvoteCount = 2, DownvoteCount = 0,
           PromptText = None, Category = Some ''food''\<rparr>]
        (\<lambda>i. if i = 0 then HttpResponse True (Decoded (JsonObject (Some ''Q'') (Some ''music'')))
             else HttpResponse False Undecodable)
        [1, 0]) = Some out \<and>
      length out = 2 \<and>
      out ! 1 = \<lparr>PostID = ''2'', PromptID = ''8'', PostText = ''b'', UpvoteCount = 2, DownvoteCount = 0,
                  PromptText = Some '''', Category = Some ''''\<rparr>)"
  using C2_failed_prompt_falls_back[of
     "[\<lparr>PostID = ''1'', PromptID = ''7'', PostText = ''a'', UpvoteCount = 5, DownvoteCount = 1,
        PromptText = None, Category = Some ''music''\<rparr>,
      \<lparr>PostID = ''2'', PromptID = ''8'', PostText = ''b'', UpvoteCount = 2, DownvoteCount = 0,
        PromptText = None, Category = Some ''food''\<rparr>]" "[1, 0]" 1
     "(\<lambda>i. if i = 0 then HttpResponse True (Decoded (JsonObject (Some ''Q'') (Some ''music'')))
          else HttpResponse False Undecodable)"]
  by (auto simp: lessThan_Suc numeral_2_eq_2)

section \<open>C10: enrichment changes only the prompt text and the category\<close>

text \<open>
  Claim C10. The enrichment of a post leaves every field other than \<^verbatim>\<open>PromptText\<close> and
  \<^verbatim>\<open>Category\<close> as it was (the identifiers, the text, both vote counts and every further
  property). The post's own \<^verbatim>\<open>Category\<close> is replaced by the category of the fetched prompt
  when the fetch succeeds, and by the empty string when the request is rejected or the
  response is not a success.
\<close>

theorem C10_enrichment_frame:
  "PostID (fst (enrichPost post r)) = PostID post \<and>
   PromptID (fst (enrichPost post r)) = PromptID post \<and>
   PostText (fst (enrichPost post r)) = PostText post \<and>
   UpvoteCount (fst (enrichPost post r)) = UpvoteCount post \<and>
   DownvoteCount (fst (enrichPost post r)) = DownvoteCount post \<and>
   post.more (fst (enrichPost post r)) = post.more post \<and>
   fst (enrichPost post r) =
     post\<lparr>PromptText := PromptText (fst (enrichPost post r)),
          Category := Category (fst (enrichPost post r))\<rparr> \<and>
   Category (fst (enrichPost post (HttpResponse True (Decoded (JsonObject promptText category))))) = category \<and>
   Category (fst (enrichPost post NetworkError)) = Some '''' \<and>
   Category (fst (enrichPost post (HttpResponse False b))) = Some ''''"
proof -
  have frame: "\<exists>t c. fst (enrichPost post r) = post\<lparr>PromptText := t, Category := c\<rparr>"
  proof (cases r)
    case NetworkError
    then show ?thesis by auto
  next
    case (HttpResponse ok bd)
    then show ?thesis
      by (cases ok; cases bd) (auto split: prompt_json.splits)
  qed
  then obtain t c where eq: "fst (enrichPost post r) = post\<lparr>PromptText := t, Category := c\<rparr>"
    by blast
  show ?thesis unfolding eq by simp
qed

section \<open>C3: the controversy score\<close>

lemma roundHalfEven_of_int: "roundHalfEven (of_int z) = z"
  by (simp add: roundHalfEven_def)

lemma floorLog2_of_int:
  assumes "0 < n"
  shows "floorLog2 (of_int n) = bitlen n - 1"
proof -
  have b: "1 \<le> bitlen n" using assms bitlen_eq_zero_iff[of n] bitlen_nonneg[of n] by linarith
  have "(2::int) ^ nat (bitlen n - 1) \<le> n" using bitlen_bounds[OF assms] by simp
  then have "(of_int ((2::int) ^ nat (bitlen n - 1)) :: rat) \<le> of_int n" by (simp only: of_int_le_iff)
  then have "pow2 (bitlen n - 1) \<le> of_int n" using b by (simp add: pow2_def)
  moreover have "bitlen 1 = 1" by (simp add: compute_bitlen)
  ultimately show ?thesis by (simp add: floorLog2_def Let_def)
qed

lemma roundToDouble_small:
  assumes "0 < n" and "n < 2 ^ 53"
  shows "roundToDouble (of_int n) = Finite (of_int n)"
proof -
  define k where "k = nat (53 - bitlen n)"
  have b1: "1 \<le> bitlen n" using assms(1) bitlen_eq_zero_iff[of n] bitlen_nonneg[of n] by linarith
  have b2: "bitlen n \<le> 53" using assms(2) by (simp add: bitlen_le_iff_power)
  have e: "max (floorLog2 (of_int n) - 52) (- 1074) = - int k"
    using b1 b2 by (simp add: floorLog2_of_int[OF assms(1)] k_def)
  have p: "pow2 (- int k) = 1 / 2 ^ k" by (auto simp: pow2_def)
  have m: "roundHalfEven (of_int n / pow2 (- int k)) = n * 2 ^ k"
  proof -
    have "(of_int n :: rat) / pow2 (- int k) = of_int (n * 2 ^ k)" by (simp add: p)
    then show ?thesis by (simp only: roundHalfEven_of_int)
  qed
  have v: "(of_int (n * 2 ^ k) :: rat) * pow2 (- int k) = of_int n" by (simp add: p)
  have "(of_int n :: rat) < 2 ^ 53" using assms(2) by (metis of_int_less_iff of_int_numeral of_int_power)
  also have "\<dots> \<le> 2 ^ 1024" by (rule power_increasing) simp_all
  finally have lt: "\<not> (2::rat) ^ 1024 \<le> of_int n" by simp
  have a: "\<bar>of_int n :: rat\<bar> = of_int n" using assms(1) by simp
  show ?thesis
    unfolding roundToDouble_def Let_def a e m v using assms(1) lt by simp
qed

lemma roundToDouble_2_53: "roundToDouble 9007199254740992 = Finite 9007199254740992"
  by code_simp

lemma roundToDouble_int_exact:
  assumes "0 \<le> n" and "n \<le> 2 ^ 53"
  shows "roundToDouble (of_int n) = Finite (of_int n)"
proof -
  consider "n = 0" | "0 < n" "n < 2 ^ 53" | "n = 2 ^ 53" using assms by linarith
  then show ?thesis
  proof cases
    case 1
    then show ?thesis by (simp add: roundToDouble_def)
  next
    case 2
    then show ?thesis by (rule roundToDouble_small)
  next
    case 3
    then show ?thesis using roundToDouble_2_53 by simp
  qed
qed

lemma js_add_int_exact:
  assumes "0 \<le> a + b" and "a + b \<le> 2 ^ 53"
  shows "js_add (jsNum a) (jsNum b) = jsNum (a + b)"
  using roundToDouble_int_exact[OF assms] by (simp add: jsNum_def)

lemma sum_votes_nonneg:
  assumes "\<forall>p\<in>set ps. 0 \<le> UpvoteCount p \<and> 0 \<le> DownvoteCount p"
  shows "0 \<le> sum_list (map (\<lambda>p. UpvoteCount p + DownvoteCount p) ps)"
  using assms by (induction ps) auto

lemma ProfileScreen_dispatch_total:
  assumes "0 \<le> t"
    and "\<forall>p\<in>set ps. 0 \<le> UpvoteCount p \<and> 0 \<le> DownvoteCount p"
    and "t + sum_list (map (\<lambda>p. UpvoteCount p + DownvoteCount p) ps) \<le> 2 ^ 53"
  shows "fst (ProfileScreen_dispatch (jsNum t) ps) =
           jsNum (t + sum_list (map (\<lambda>p. UpvoteCount p + DownvoteCount p) ps))"
  using assms
proof (induction ps arbitrary: t)
  case Nil
  show ?case by simp
next
  case (Cons a ps)
  let ?c = "UpvoteCount a + DownvoteCount a"
  let ?rest = "sum_list (map (\<lambda>p. UpvoteCount p + DownvoteCount p) ps)"
  have nn: "0 \<le> UpvoteCount a" "0 \<le> DownvoteCount a"
    and rest_nn: "\<forall>p\<in>set ps. 0 \<le> UpvoteCount p \<and> 0 \<le> DownvoteCount p"
    using Cons.prems(2) by auto
  have rest: "0 \<le> ?rest" by (rule sum_votes_nonneg[OF rest_nn])
  have bound: "t + ?c + ?rest \<le> 2 ^ 53" using Cons.prems(3) by simp
  have c: "js_add (jsNum (UpvoteCount a)) (jsNum (DownvoteCount a)) = jsNum ?c"
    using nn rest bound Cons.prems(1) by (intro js_add_int_exact) linarith+
  have tc: "js_add (jsNum t) (jsNum ?c) = jsNum (t + ?c)"
    using nn rest bound Cons.prems(1) by (intro js_add_int_exact) linarith+
  obtain x es where d: "ProfileScreen_dispatch (jsNum (t + ?c)) ps = (x, es)"
    by (cases "ProfileScreen_dispatch (jsNum (t + ?c)) ps")
  have "x = jsNum (t + ?c + ?rest)"
    using Cons.IH[of "t + ?c", OF _ rest_nn bound] nn Cons.prems(1) d by simp
  then show ?case using d by (simp add: Let_def c tc add.assoc)
qed

lemma ProfileScreen_fetchPosts_resolved:
  assumes "uid \<noteq> []" and "{..<length ps} \<subseteq> set sched"
  shows "fst (ProfileScreen_fetchPosts (GetItem (Some uid)) (HttpResponse ok (Decoded (Some ps))) resp sched st) =
           st\<lparr>isLoading := True,
              posts := map (\<lambda>i. fst (enrichPost (ps ! i) (resp i))) [0..<length ps],
              controversyScore := fst (ProfileScreen_dispatch (Finite 0) ps),
              isLoading := False\<rparr>"
proof -
  obtain t es where d: "ProfileScreen_dispatch (Finite 0) ps = (t, es)"
    by (cases "ProfileScreen_dispatch (Finite 0) ps")
  obtain tr where e: "enrichAll ps resp sched =
      (Some (map (\<lambda>i. fst (enrichPost (ps ! i) (resp i))) [0..<length ps]), tr)"
    using enrichAll_complete[OF assms(2), of resp] by (cases "enrichAll ps resp sched") auto
  show ?thesis
    unfolding ProfileScreen_fetchPosts_def using assms(1) by (simp add: d e)
qed

text \<open>
  The claim as stated fails where the sum is not a double: \<^verbatim>\<open>totalVotes\<close> is a JavaScript
  number, and for one post with \<open>2 ^ 53\<close> upvotes and one downvote the score set is
  \<open>2 ^ 53\<close>, one less than the exact sum.
\<close>

theorem C3_counterexample:
  "controversyScore
     (fst (ProfileScreen_fetchPosts (GetItem (Some ''u1''))
        (HttpResponse True (Decoded (Some
          [\<lparr>PostID = ''1'', PromptID = ''7'', PostText = ''a'', UpvoteCount = 9007199254740992,
             DownvoteCount = 1, PromptText = None, Category = None\<rparr>])))
        (\<lambda>i. NetworkError) [0] (ProfileScreen_init :: unit ProfileScreen_state))) =
     Finite 9007199254740992 \<and>
   sum_list (map (\<lambda>p. UpvoteCount p + DownvoteCount p)
     [\<lparr>PostID = ''1'', PromptID = ''7'', PostText = ''a'', UpvoteCount = 9007199254740992,
        DownvoteCount = 1, PromptText = None, Category = None\<rparr>]) = 9007199254740993"
proof -
  have a: "js_add (Finite 0) (js_add (jsNum 9007199254740992) (jsNum 1)) = Finite 9007199254740992"
    by code_simp
  have "fst (ProfileScreen_fetchPosts (GetItem (Some ''u1''))
        (HttpResponse True (Decoded (Some
          [\<lparr>PostID = ''1'', PromptID = ''7'', PostText = ''a'', UpvoteCount = 9007199254740992,
             DownvoteCount = 1, PromptText = None, Category = None\<rparr>])))
        (\<lambda>i. NetworkError) [0] (ProfileScreen_init :: unit ProfileScreen_state)) =
      ProfileScreen_init\<lparr>isLoading := True,
        posts := map (\<lambda>i. fst (enrichPost
                  ([\<lparr>PostID = ''1'', PromptID = ''7'', PostText = ''a'', UpvoteCount = 9007199254740992,
                      DownvoteCount = 1, PromptText = None, Category = None\<rparr>] ! i) NetworkError))
                  [0..<1],
        controversyScore := fst (ProfileScreen_dispatch (Finite 0)
            [\<lparr>PostID = ''1'', PromptID = ''7'', PostText = ''a'', UpvoteCount = 9007199254740992,
               DownvoteCount = 1, PromptText = None, Category = None\<rparr>]),
        isLoading := False\<rparr>"
    using ProfileScreen_fetchPosts_resolved[of "''u1''"
        "[\<lparr>PostID = ''1'', PromptID = ''7'', PostText = ''a'', UpvoteCount = 9007199254740992,
             DownvoteCount = 1, PromptText = None, Category = None\<rparr>]" "[0]" True "\<lambda>i. NetworkError"
        "ProfileScreen_init :: unit ProfileScreen_state"]
    by (simp add: lessThan_Suc)
  then show ?thesis by (simp add: a Let_def)
qed

text \<open>
  Claim C3, amended. When the vote counts of the fetched posts are non-negative integers
  whose total is at most \<open>2 ^ 53\<close> (so that every partial sum is a double), and the
  fan-out resolves, the controversy score the profile screen sets is the sum of
  \<^verbatim>\<open>UpvoteCount + DownvoteCount\<close> over the fetched posts, each post counted once, whatever
  the outcomes of the prompt fetches and whatever the order in which they settle.
\<close>

theorem C3_controversy_score_is_vote_sum:
  assumes "uid \<noteq> []" and "{..<length ps} \<subseteq> set sched"
    and "\<forall>p\<in>set ps. 0 \<le> UpvoteCount p \<and> 0 \<le> DownvoteCount p"
    and "sum_list (map (\<lambda>p. UpvoteCount p + DownvoteCount p) ps) \<le> 2 ^ 53"
  shows "controversyScore
           (fst (ProfileScreen_fetchPosts (GetItem (Some uid)) (HttpResponse ok (Decoded (Some ps)))
                   resp sched st)) =
         jsNum (sum_list (map (\<lambda>p. UpvoteCount p + DownvoteCount p) ps))"
proof -
  have "fst (ProfileScreen_dispatch (jsNum 0) ps) =
          jsNum (0 + sum_list (map (\<lambda>p. UpvoteCount p + DownvoteCount p) ps))"
    using assms(3,4) by (intro ProfileScreen_dispatch_total) simp_all
  then have "fst (ProfileScreen_dispatch (Finite 0) ps) =
          jsNum (sum_list (map (\<lambda>p. UpvoteCount p + DownvoteCount p) ps))"
    by (simp add: jsNum_def)
  then show ?thesis
    by (simp add: ProfileScreen_fetchPosts_resolved[OF assms(1,2)])
qed

theorem C3_witness:
  "''u1'' \<noteq> [] \<and>
   {..<length [\<lparr>PostID = ''1'', PromptID = ''7'', PostText = ''a'', UpvoteCount = 5, DownvoteCount = 1,
        PromptText = None, Category = None\<rparr>,
      \<lparr>PostID = ''2'', PromptID = ''8'', PostText = ''b'', UpvoteCount = 2, DownvoteCount = 0,
        PromptText = None, Category = None\<rparr>]} \<subseteq> set [1, 0 :: nat] \<and>
   list_all (\<lambda>p. 0 \<le> UpvoteCount p \<and> 0 \<le> DownvoteCount p)
     [\<lparr>PostID = ''1'', PromptID = ''7'', PostText = ''a'', UpvoteCount = 5, DownvoteCount = 1,
        PromptText = None, Category = None\<rparr>,
      \<lparr>PostID = ''2'', PromptID = ''8'', PostText = ''b'', UpvoteCount = 2, DownvoteCount = 0,
        PromptText = None, Category = None\<rparr>] \<and>
   sum_list (map (\<lambda>p. UpvoteCount p + DownvoteCount p)
     [\<lparr>PostID = ''1'', PromptID = ''7'', PostText = ''a'', UpvoteCount = 5, DownvoteCount = 1,
        PromptText = None, Category = None\<rparr>,
      \<lparr>PostID = ''2'', PromptID = ''8'', PostText = ''b'', UpvoteCount = 2, DownvoteCount = 0,
        PromptText = None, Category = None\<rparr>]) \<le> 2 ^ 53 \<and>
   controversyScore
     (fst (ProfileScreen_fetchPosts (GetItem (Some ''u1''))
        (HttpResponse True (Decoded (Some
          [\<lparr>PostID = ''1'', PromptID = ''7'', PostText = ''a'', UpvoteCount = 5, DownvoteCount = 1,
             PromptText = None, Category = None\<rparr>,
           \<lparr>PostID = ''2'', PromptID = ''8'', PostText = ''b'', UpvoteCount = 2, DownvoteCount = 0,
             PromptText = None, Category = None\<rparr>])))
        (\<lambda>i. if i = 0 then HttpResponse True (Decoded (JsonObject (Some ''Q'') (Some ''music'')))
             else NetworkError)
        [1, 0] (ProfileScreen_init :: unit ProfileScreen_state))) = Finite 8"
  using C3_controversy_score_is_vote_sum[of "''u1''"
     "[\<lparr>PostID = ''1'', PromptID = ''7'', PostText = ''a'', UpvoteCount = 5, DownvoteCount = 1,
        PromptText = None, Category = None\<rparr>,
      \<lparr>PostID = ''2'', PromptID = ''8'', PostText = ''b'', UpvoteCount = 2, DownvoteCount = 0,
        PromptText = None, Category = None\<rparr>]" "[1, 0]" True
     "(\<lambda>i. if i = 0 then HttpResponse True (Decoded (JsonObject (Some ''Q'') (Some ''music'')))
          else NetworkError)" "ProfileScreen_init :: unit ProfileScreen_state"]
  by (simp add: lessThan_Suc jsNum_def)

section \<open>C4: the trending screen keeps the twenty most upvoted posts\<close>

lemma mset_insert_by: "mset (insert_by cmp x ys) = add_mset x (mset ys)"
  by (induction ys) auto

lemma mset_Array_sort: "mset (Array_sort cmp xs) = mset xs"
  unfolding Array_sort_def by (induction xs) (auto simp: mset_insert_by)

lemma length_Array_sort: "length (Array_sort cmp xs) = length xs"
  using mset_Array_sort[of cmp xs] by (metis size_mset)

lemma set_insert_by: "set (insert_by cmp x ys) = insert x (set ys)"
  using mset_insert_by[of cmp x ys] by (metis set_mset_mset set_mset_add_mset_insert)

lemma sorted_insert_by_upvotes:
  "sorted_wrt (\<lambda>a b. UpvoteCount b \<le> UpvoteCount a) ys \<Longrightarrow>
   sorted_wrt (\<lambda>a b. UpvoteCount b \<le> UpvoteCount a) (insert_by byUpvotesDesc x ys)"
  by (induction ys) (auto simp: set_insert_by byUpvotesDesc_def)

lemma sorted_Array_sort_upvotes:
  "sorted_wrt (\<lambda>a b. UpvoteCount b \<le> UpvoteCount a) (Array_sort byUpvotesDesc xs)"
  unfolding Array_sort_def by (induction xs) (auto simp: sorted_insert_by_upvotes)

lemma settle_all_no_fetch:
  assumes "\<And>i. filter isFetch (snd (task i)) = []"
  shows "filter isFetch (snd (settle_all task sched (slots, tr))) = filter isFetch tr"
proof (induction sched arbitrary: slots tr)
  case Nil
  show ?case by simp
next
  case (Cons j sched)
  obtain v es where t: "task j = (v, es)" by (cases "task j")
  have es: "filter isFetch es = []" using assms[of j] t by simp
  show ?case using Cons.IH t es by simp
qed

lemma enrichPost_no_fetch: "filter isFetch (snd (enrichPost p r)) = []"
  by (cases r) (auto split: body.splits prompt_json.splits)

lemma enrichAll_no_fetch: "filter isFetch (snd (enrichAll ps resp sched)) = []"
proof -
  obtain slots tr where s:
    "settle_all (\<lambda>i. enrichPost (ps ! i) (resp i)) sched (replicate (length ps) None, []) = (slots, tr)"
    by (cases "settle_all (\<lambda>i. enrichPost (ps ! i) (resp i)) sched (replicate (length ps) None, [])")
  have "filter isFetch tr = []"
    using settle_all_no_fetch[of "\<lambda>i. enrichPost (ps ! i) (resp i)" sched "replicate (length ps) None" "[]"] s
    by (simp add: enrichPost_no_fetch)
  then show ?thesis unfolding enrichAll_def Promise_all_def s by simp
qed

lemma Trending_fetchPosts_resolved:
  assumes "{..<length (take 20 (Array_sort byUpvotesDesc data))} \<subseteq> set sched"
  shows "fst (Trending_fetchPosts (HttpResponse ok (Decoded (Some data))) resp sched st) =
           st\<lparr>postsT := map (\<lambda>i. fst (enrichPost (take 20 (Array_sort byUpvotesDesc data) ! i) (resp i)))
                            [0..<length (take 20 (Array_sort byUpvotesDesc data))],
              loading := False\<rparr>"
proof -
  obtain tr where e: "enrichAll (take 20 (Array_sort byUpvotesDesc data)) resp sched =
      (Some (map (\<lambda>i. fst (enrichPost (take 20 (Array_sort byUpvotesDesc data) ! i) (resp i)))
                 [0..<length (take 20 (Array_sort byUpvotesDesc data))]), tr)"
    using enrichAll_complete[OF assms, of resp]
    by (cases "enrichAll (take 20 (Array_sort byUpvotesDesc data)) resp sched") auto
  show ?thesis
    unfolding Trending_fetchPosts_def by (simp add: e Let_def)
qed

lemma Trending_fetchPosts_requests:
  "filter isFetch (snd (Trending_fetchPosts (HttpResponse ok (Decoded (Some data))) resp sched st)) =
     Fetch ''http://34.139.77.174/api/posts'' #
     map (\<lambda>post. Fetch (promptUrl post)) (take 20 (Array_sort byUpvotesDesc data))"
proof -
  obtain r tr where e: "enrichAll (take 20 (Array_sort byUpvotesDesc data)) resp sched = (r, tr)"
    by (cases "enrichAll (take 20 (Array_sort byUpvotesDesc data)) resp sched")
  have tr: "filter isFetch tr = []"
    using enrichAll_no_fetch[of "take 20 (Array_sort byUpvotesDesc data)" resp sched] e by simp
  have m: "filter isFetch (map (\<lambda>post. Fetch (promptUrl post)) xs) = map (\<lambda>post. Fetch (promptUrl post)) xs"
    for xs :: "'a post_scheme list"
    by (induction xs) auto
  show ?thesis
    unfolding Trending_fetchPosts_def by (cases r) (simp_all add: e Let_def tr m)
qed

text \<open>
  Claim C4. When the fetched global list has more than twenty posts (and the fan-out
  resolves), the post set of the trending screen has twenty entries: the enrichments, in
  order, of the first twenty posts of the fetched list sorted by \<^verbatim>\<open>UpvoteCount\<close> in
  descending order. The sorted list is a rearrangement of the fetched one in which no post
  has more upvotes than a post before it. Sorting and truncation come before enrichment:
  the prompt requests issued are exactly those of the twenty posts kept.
\<close>

theorem C4_trending_top20:
  assumes "20 < length data" and "{..<20} \<subseteq> set sched"
  shows "mset (Array_sort byUpvotesDesc data) = mset data \<and>
         sorted_wrt (\<lambda>a b. UpvoteCount b \<le> UpvoteCount a) (Array_sort byUpvotesDesc data) \<and>
         length (postsT (fst (Trending_fetchPosts (HttpResponse ok (Decoded (Some data))) resp sched st))) = 20 \<and>
         postsT (fst (Trending_fetchPosts (HttpResponse ok (Decoded (Some data))) resp sched st)) =
           map (\<lambda>i. fst (enrichPost (Array_sort byUpvotesDesc data ! i) (resp i))) [0..<20] \<and>
         filter isFetch (snd (Trending_fetchPosts (HttpResponse ok (Decoded (Some data))) resp sched st)) =
           Fetch ''http://34.139.77.174/api/posts'' #
           map (\<lambda>post. Fetch (promptUrl post)) (take 20 (Array_sort byUpvotesDesc data))"
proof -
  have len: "length (take 20 (Array_sort byUpvotesDesc data)) = 20"
    using assms(1) by (simp add: length_Array_sort)
  have sched: "{..<length (take 20 (Array_sort byUpvotesDesc data))} \<subseteq> set sched"
    using assms(2) len by simp
  have "postsT (fst (Trending_fetchPosts (HttpResponse ok (Decoded (Some data))) resp sched st)) =
          map (\<lambda>i. fst (enrichPost (take 20 (Array_sort byUpvotesDesc data) ! i) (resp i))) [0..<20]"
    using Trending_fetchPosts_resolved[OF sched, of ok resp st] len by simp
  also have "\<dots> = map (\<lambda>i. fst (enrichPost (Array_sort byUpvotesDesc data ! i) (resp i))) [0..<20]"
    by (rule map_cong) auto
  finally show ?thesis
    by (simp add: mset_Array_sort sorted_Array_sort_upvotes Trending_fetchPosts_requests)
qed

theorem C4_witness:
  "20 < length (map (\<lambda>n. \<lparr>PostID = ''p'', PromptID = ''q'', PostText = ''t'', UpvoteCount = n,
              DownvoteCount = 0, PromptText = None, Category = None\<rparr>) [1..21]) \<and>
   {..<20} \<subseteq> set (rev [0..<20]) \<and>
   map UpvoteCount (postsT (fst (Trending_fetchPosts
      (HttpResponse True (Decoded (Some (map (\<lambda>n. \<lparr>PostID = ''p'', PromptID = ''q'', PostText = ''t'',
              UpvoteCount = n, DownvoteCount = 0, PromptText = None, Category = None\<rparr>) [1..21]))))
      (\<lambda>i. NetworkError) (rev [0..<20]) (Trending_init :: unit Trending_state)))) =
    [21, 20, 19, 18, 17, 16, 15, 14, 13, 12, 11, 10, 9, 8, 7, 6, 5, 4, 3, 2]"
proof -
  let ?data = "map (\<lambda>n. \<lparr>PostID = ''p'', PromptID = ''q'', PostText = ''t'', UpvoteCount = n,
              DownvoteCount = 0, PromptText = None, Category = None\<rparr>) [1..21]"
  have h1: "20 < length ?data" by simp
  have h2: "{..<20} \<subseteq> set (rev [0..<20])" by (simp add: atLeast0LessThan)
  have "map UpvoteCount (postsT (fst (Trending_fetchPosts (HttpResponse True (Decoded (Some ?data)))
      (\<lambda>i. NetworkError) (rev [0..<20]) (Trending_init :: unit Trending_state)))) =
      map (\<lambda>i. UpvoteCount (Array_sort byUpvotesDesc ?data ! i)) [0..<20]"
    using C4_trending_top20[OF h1 h2, of True "\<lambda>i. NetworkError" "Trending_init :: unit Trending_state"]
    by simp
  also have "\<dots> = [21, 20, 19, 18, 17, 16, 15, 14, 13, 12, 11, 10, 9, 8, 7, 6, 5, 4, 3, 2]"
    by code_simp
  finally show ?thesis using h1 h2 by simp
qed

section \<open>C5: selecting a category\<close>

lemma js_add_5_1: "js_add (jsNum 5) (jsNum 1) = Finite 6"
  by code_simp

text \<open>
  The claim as stated fails: with \<^verbatim>\<open>sports\<close> selected, a post of category \<^verbatim>\<open>music\<close> is
  still rendered. The component maps over all of \<^verbatim>\<open>posts\<close>; the selection only decides
  which button is highlighted.
\<close>

theorem C5_counterexample:
  "selectedCategory
     (handleCategoryPress ''sports''
        \<lparr>postsT = [\<lparr>PostID = ''1'', PromptID = ''7'', PostText = ''a'', UpvoteCount = 5,
                     DownvoteCount = 1, PromptText = Some ''Q'', Category = Some ''music''\<rparr>],
         loading = False, selectedCategory = ''all''\<rparr>) = ''sports'' \<and>
   renderedCards (Trending_render
     (handleCategoryPress ''sports''
        \<lparr>postsT = [\<lparr>PostID = ''1'', PromptID = ''7'', PostText = ''a'', UpvoteCount = 5,
                     DownvoteCount = 1, PromptText = Some ''Q'', Category = Some ''music''\<rparr>],
         loading = False, selectedCategory = ''all''\<rparr>)) =
     [\<lparr>cardPrompt = Some ''Q'', cardText = ''a'', cardNumber = Finite 6, cardPress = (''1'', ''7'')\<rparr>]"
  by (simp add: handleCategoryPress_def Trending_render_def Trending_card_def js_add_5_1)

text \<open>
  Claim C5, amended. Selecting a category changes only the selection: the fetched post
  list and the loading flag stay as they were. Selecting the active category sets the
  selection to \<^verbatim>\<open>all\<close>, selecting any other makes it the selection; so selecting a
  category that is not active twice in succession ends at \<^verbatim>\<open>all\<close>. When the selection is
  \<^verbatim>\<open>all\<close> (and the screen is not loading), every fetched post is rendered.
\<close>

theorem C5_selection_toggles:
  "postsT (handleCategoryPress c st) = postsT st \<and>
   loading (handleCategoryPress c st) = loading st \<and>
   selectedCategory (handleCategoryPress c st) = (if selectedCategory st = c then ''all'' else c) \<and>
   selectedCategory (handleCategoryPress c (handleCategoryPress c st)) =
     (if selectedCategory st = c then c else ''all'') \<and>
   (selectedCategory st = ''all'' \<and> \<not> loading st \<longrightarrow>
      renderedCards (Trending_render st) = map Trending_card (postsT st))"
  by (simp add: handleCategoryPress_def Trending_render_def)

theorem C5_witness:
  "selectedCategory
     (\<lparr>postsT = [\<lparr>PostID = ''1'', PromptID = ''7'', PostText = ''a'', UpvoteCount = 5,
                  DownvoteCount = 1, PromptText = Some ''Q'', Category = Some ''music''\<rparr>],
       loading = False, selectedCategory = ''all''\<rparr> :: unit Trending_state) = ''all'' \<and>
   \<not> loading
     (\<lparr>postsT = [\<lparr>PostID = ''1'', PromptID = ''7'', PostText = ''a'', UpvoteCount = 5,
                  DownvoteCount = 1, PromptText = Some ''Q'', Category = Some ''music''\<rparr>],
       loading = False, selectedCategory = ''all''\<rparr> :: unit Trending_state) \<and>
   renderedCards (Trending_render
     \<lparr>postsT = [\<lparr>PostID = ''1'', PromptID = ''7'', PostText = ''a'', UpvoteCount = 5,
                  DownvoteCount = 1, PromptText = Some ''Q'', Category = Some ''music''\<rparr>],
      loading = False, selectedCategory = ''all''\<rparr>) =
     [\<lparr>cardPrompt = Some ''Q'', cardText = ''a'', cardNumber = Finite 6, cardPress = (''1'', ''7'')\<rparr>] \<and>
   selectedCategory (handleCategoryPress ''sports''
     (\<lparr>postsT = [\<lparr>PostID = ''1'', PromptID = ''7'', PostText = ''a'', UpvoteCount = 5,
                  DownvoteCount = 1, PromptText = Some ''Q'', Category = Some ''music''\<rparr>],
       loading = False, selectedCategory = ''all''\<rparr> :: unit Trending_state)) = ''sports'' \<and>
   selectedCategory (handleCategoryPress ''sports'' (handleCategoryPress ''sports''
     (\<lparr>postsT = [\<lparr>PostID = ''1'', PromptID = ''7'', PostText = ''a'', UpvoteCount = 5,
                  DownvoteCount = 1, PromptText = Some ''Q'', Category = Some ''music''\<rparr>],
       loading = False, selectedCategory = ''all''\<rparr> :: unit Trending_state))) = ''all''"
  using C5_selection_toggles[of "''sports''"
     "\<lparr>postsT = [\<lparr>PostID = ''1'', PromptID = ''7'', PostText = ''a'', UpvoteCount = 5,
                  DownvoteCount = 1, PromptText = Some ''Q'', Category = Some ''music''\<rparr>],
       loading = False, selectedCategory = ''all''\<rparr> :: unit Trending_state"]
  by (simp add: Trending_card_def js_add_5_1)

section \<open>C6: navigation with identifiers that are not numeric\<close>

lemma handlePostPress_aborts_on_NaN:
  assumes "isNaN (Number postId) \<or> isNaN (Number promptId)"
  shows "handlePostPress nav postId promptId =
           (Returned, [ConsoleError ''Invalid postId or promptId format''])"
  using assms by (simp add: handlePostPress_def Let_def)

lemma handlePostPress_returns: "fst (handlePostPress nav postId promptId) = Returned"
  by (cases nav) (simp_all add: handlePostPress_def Let_def)

lemma Number_abc: "Number ''abc'' = NaN"
  by code_simp

lemma Number_7: "Number ''7'' = Finite 7"
  by code_simp

text \<open>
  Claim C6 holds for \<^verbatim>\<open>handlePostPress\<close> of the trending screen and fails for
  \<^verbatim>\<open>navigateToReplies\<close> of the profile screen, which has no check: for the post identifier
  \<^verbatim>\<open>abc\<close> it dispatches the navigation with \<open>NaN\<close> and reports nothing, where the trending
  screen only reports the failure.
\<close>

theorem C6_profile_navigates_with_NaN:
  "isNaN (Number ''abc'') \<and>
   navigateToReplies NavigateReturns ''abc'' ''7'' = (Returned, [Navigate_Replies NaN (Finite 7)]) \<and>
   handlePostPress NavigateReturns ''abc'' ''7'' =
     (Returned, [ConsoleError ''Invalid postId or promptId format''])"
  by (simp add: navigateToReplies_def handlePostPress_def Let_def isNaN_def Number_abc Number_7)

section \<open>C7: no stored user identifier\<close>

text \<open>
  Claim C7. When \<^verbatim>\<open>getUserId\<close> resolves to \<^verbatim>\<open>null\<close>, \<^verbatim>\<open>fetchUserData\<close> and \<^verbatim>\<open>fetchPosts\<close>
  of the profile screen both set the error state, clear their loading flag and issue no
  network request; the posts and the controversy score stay as they were (no enrichment).
\<close>

theorem C7_no_user_id_short_circuits:
  assumes "fst (getUserId store) = None"
  shows "error (fst (fetchUserData store userResponse st)) = Some ''User ID is not available'' \<and>
         userLoading (fst (fetchUserData store userResponse st)) = False \<and>
         username (fst (fetchUserData store userResponse st)) = username st \<and>
         filter isFetch (snd (fetchUserData store userResponse st)) = [] \<and>
         error (fst (ProfileScreen_fetchPosts store response resp sched st)) = Some ''User ID is not available'' \<and>
         isLoading (fst (ProfileScreen_fetchPosts store response resp sched st)) = False \<and>
         posts (fst (ProfileScreen_fetchPosts store response resp sched st)) = posts st \<and>
         controversyScore (fst (ProfileScreen_fetchPosts store response resp sched st)) = controversyScore st \<and>
         filter isFetch (snd (ProfileScreen_fetchPosts store response resp sched st)) = []"
proof -
  obtain es where g: "getUserId store = (None, es)" "filter isFetch es = []"
    using assms by (cases store rule: getUserId.cases) auto
  show ?thesis
    by (simp add: fetchUserData_def ProfileScreen_fetchPosts_def g Let_def)
qed

theorem C7_witness:
  "fst (getUserId (GetItem None)) = None \<and>
   ProfileScreen_fetchPosts (GetItem None)
     (HttpResponse True (Decoded (Some
        [\<lparr>PostID = ''1'', PromptID = ''7'', PostText = ''a'', UpvoteCount = 5, DownvoteCount = 1,
           PromptText = None, Category = None\<rparr>])))
     (\<lambda>i. NetworkError) [0] ProfileScreen_init =
   (\<lparr>posts = [], isLoading = False, error = Some ''User ID is not available'', username = '''',
      userLoading = True, controversyScore = Finite 0\<rparr>,
    [ConsoleLog ''User not logged in'']) \<and>
   filter isFetch (snd (ProfileScreen_fetchPosts (GetItem None)
     (HttpResponse True (Decoded (Some
        [\<lparr>PostID = ''1'', PromptID = ''7'', PostText = ''a'', UpvoteCount = 5, DownvoteCount = 1,
           PromptText = None, Category = None\<rparr>])))
     (\<lambda>i. NetworkError) [0] (ProfileScreen_init :: unit ProfileScreen_state))) = []"
proof -
  have h: "fst (getUserId (GetItem None)) = None" by simp
  show ?thesis
    using h C7_no_user_id_short_circuits[OF h, of
      "HttpResponse True (Decoded None)" "ProfileScreen_init :: unit ProfileScreen_state"
      "HttpResponse True (Decoded (Some
        [\<lparr>PostID = ''1'', PromptID = ''7'', PostText = ''a'', UpvoteCount = 5, DownvoteCount = 1,
           PromptText = None, Category = None\<rparr>]))" "\<lambda>i. NetworkError" "[0]"]
    by (simp add: ProfileScreen_fetchPosts_def ProfileScreen_init_def)
qed

section \<open>C8: failure of the primary fetch\<close>

text \<open>
  The claim as stated fails on the trending screen: after a rejected request the state
  holds no error (the component has none), the failure is written to the console only, and
  what is rendered is the category bar with no post card and no error text.
\<close>

theorem C8_counterexample:
  "Trending_fetchPosts NetworkError (\<lambda>i. NetworkError) [] (Trending_init :: unit Trending_state) =
     (\<lparr>postsT = [], loading = False, selectedCategory = ''all''\<rparr>,
      [Fetch ''http://34.139.77.174/api/posts'', ConsoleError ''Error fetching data:'']) \<and>
   Trending_render (\<lparr>postsT = [], loading = False, selectedCategory = ''all''\<rparr> :: unit Trending_state) =
     TrendingScreen
       [(''Sports'', False), (''Music'', False), (''Movies'', False), (''Food'', False),
        (''Fashion'', False), (''Tech'', False), (''Travel'', False), (''Politics'', False),
        (''Health'', False), (''Fitness'', False)]
       []"
  by (simp add: Trending_fetchPosts_def Trending_init_def Trending_render_def categories_def)

text \<open>
  Claim C8, amended. On each screen a transport or decoding failure of the primary
  post-list fetch is caught and halts the pipeline: after the one request nothing but the
  console message follows (no prompt request), and the stored posts (and the controversy
  score) stay as they were. On the profile screen the failure is surfaced to the user: the
  error state becomes \<^verbatim>\<open>Failed to load posts\<close> and that text is rendered. On the trending
  screen the failure is written to the console and the loading flag is cleared.
\<close>

theorem C8_primary_fetch_failure:
  assumes "fetchFailed response" and "uid \<noteq> []"
  shows "posts (fst (ProfileScreen_fetchPosts (GetItem (Some uid)) response resp sched st)) = posts st \<and>
         controversyScore (fst (ProfileScreen_fetchPosts (GetItem (Some uid)) response resp sched st)) =
           controversyScore st \<and>
         error (fst (ProfileScreen_fetchPosts (GetItem (Some uid)) response resp sched st)) =
           Some ''Failed to load posts'' \<and>
         isLoading (fst (ProfileScreen_fetchPosts (GetItem (Some uid)) response resp sched st)) = False \<and>
         renderPosts (fst (ProfileScreen_fetchPosts (GetItem (Some uid)) response resp sched st)) =
           ErrorText ''Failed to load posts'' \<and>
         snd (ProfileScreen_fetchPosts (GetItem (Some uid)) response resp sched st) =
           [Fetch (''http://34.139.77.174/api/user/'' @ uid @ ''/posts''),
            ConsoleError ''Error fetching posts:''] \<and>
         fst (Trending_fetchPosts response resp sched tst) = tst\<lparr>loading := False\<rparr> \<and>
         snd (Trending_fetchPosts response resp sched tst) =
           [Fetch ''http://34.139.77.174/api/posts'', ConsoleError ''Error fetching data:'']"
  using assms
  by (cases response rule: fetchFailed.cases)
     (simp_all add: ProfileScreen_fetchPosts_def Trending_fetchPosts_def renderPosts_def Let_def)

theorem C8_witness:
  "fetchFailed (NetworkError :: unit post_scheme list option response) \<and> ''u1'' \<noteq> [] \<and>
   ProfileScreen_fetchPosts (GetItem (Some ''u1'')) NetworkError (\<lambda>i. NetworkError) []
       (ProfileScreen_init :: unit ProfileScreen_state) =
     (\<lparr>posts = [], isLoading = False, error = Some ''Failed to load posts'', username = '''',
        userLoading = True, controversyScore = Finite 0\<rparr>,
      [Fetch ''http://34.139.77.174/api/user/u1/posts'', ConsoleError ''Error fetching posts:'']) \<and>
   renderPosts (fst (ProfileScreen_fetchPosts (GetItem (Some ''u1'')) NetworkError (\<lambda>i. NetworkError) []
       (ProfileScreen_init :: unit ProfileScreen_state))) = ErrorText ''Failed to load posts''"
proof -
  have h1: "fetchFailed (NetworkError :: unit post_scheme list option response)" by simp
  have h2: "''u1'' \<noteq> []" by simp
  show ?thesis
    using h1 h2 C8_primary_fetch_failure[OF h1 h2, of "\<lambda>i. NetworkError" "[]"
      "ProfileScreen_init :: unit ProfileScreen_state" "Trending_init :: unit Trending_state"]
    by (simp add: ProfileScreen_fetchPosts_def ProfileScreen_init_def)
qed

section \<open>C9: the empty post list\<close>

text \<open>
  The claim as stated fails. On the trending screen an empty fetched list is rendered
  exactly as a failed fetch is: the category bar and no card, with no text of its own. On
  the profile screen the error text takes precedence: when the user-data fetch has failed,
  an empty post list shows that error and not \<^verbatim>\<open>No posts yet\<close>.
\<close>

theorem C9_counterexample:
  "Trending_render (fst (Trending_fetchPosts (HttpResponse True (Decoded (Some [])))
       (\<lambda>i. NetworkError) [] (Trending_init :: unit Trending_state))) =
   Trending_render (fst (Trending_fetchPosts NetworkError
       (\<lambda>i. NetworkError) [] (Trending_init :: unit Trending_state))) \<and>
   renderPosts (fst (ProfileScreen_fetchPosts (GetItem (Some ''u1'')) (HttpResponse True (Decoded (Some [])))
       (\<lambda>i. NetworkError) []
       (fst (fetchUserData (GetItem (Some ''u1'')) NetworkError
               (ProfileScreen_init :: unit ProfileScreen_state))))) =
     ErrorText ''Failed to load user data''"
proof -
  have t: "fst (Trending_fetchPosts (HttpResponse True (Decoded (Some [])))
       (\<lambda>i. NetworkError) [] (Trending_init :: unit Trending_state)) =
       Trending_init\<lparr>postsT := [], loading := False\<rparr>"
    using Trending_fetchPosts_resolved[of "[]" "[]" True "\<lambda>i. NetworkError" "Trending_init :: unit Trending_state"]
    by (simp add: Array_sort_def)
  have p: "fst (ProfileScreen_fetchPosts (GetItem (Some ''u1'')) (HttpResponse True (Decoded (Some [])))
       (\<lambda>i. NetworkError) [] st) = st\<lparr>isLoading := True, posts := [], controversyScore := Finite 0, isLoading := False\<rparr>"
    for st :: "unit ProfileScreen_state"
    using ProfileScreen_fetchPosts_resolved[of "''u1''" "[]" "[]" True "\<lambda>i. NetworkError" st]
    by simp
  show ?thesis
    unfolding t p
    by (simp add: Trending_fetchPosts_def Trending_init_def Trending_render_def
          fetchUserData_def ProfileScreen_init_def renderPosts_def)
qed

text \<open>
  Claim C9, amended. On the profile screen, when the posts fetch completes with an empty
  list and no error has been set, \<^verbatim>\<open>renderPosts\<close> shows \<^verbatim>\<open>No posts yet\<close>, which is neither
  the activity indicator nor an error text. On the trending screen an empty fetched list
  leaves the loading state: what is rendered is not the activity indicator and has no post
  card.
\<close>

theorem C9_empty_list_rendering:
  assumes "uid \<noteq> []" and "error st = None"
  shows "renderPosts (fst (ProfileScreen_fetchPosts (GetItem (Some uid)) (HttpResponse ok (Decoded (Some [])))
                        resp sched st)) = EmptyText ''No posts yet'' \<and>
         EmptyText ''No posts yet'' \<noteq> ActivityIndicator \<and>
         EmptyText ''No posts yet'' \<noteq> ErrorText e \<and>
         Trending_render (fst (Trending_fetchPosts (HttpResponse ok (Decoded (Some []))) resp sched tst)) \<noteq>
           TrendingLoading \<and>
         renderedCards
           (Trending_render (fst (Trending_fetchPosts (HttpResponse ok (Decoded (Some []))) resp sched tst))) = []"
proof -
  have t: "fst (Trending_fetchPosts (HttpResponse ok (Decoded (Some []))) resp sched tst) =
       tst\<lparr>postsT := [], loading := False\<rparr>"
    using Trending_fetchPosts_resolved[of "[]" sched ok resp tst] by (simp add: Array_sort_def)
  have p: "fst (ProfileScreen_fetchPosts (GetItem (Some uid)) (HttpResponse ok (Decoded (Some [])))
       resp sched st) = st\<lparr>isLoading := True, posts := [], controversyScore := Finite 0, isLoading := False\<rparr>"
    using ProfileScreen_fetchPosts_resolved[OF assms(1), of "[]" sched ok resp st] by simp
  show ?thesis
    unfolding t p using assms(2) by (simp add: renderPosts_def Trending_render_def)
qed

theorem C9_witness:
  "''u1'' \<noteq> [] \<and> error (ProfileScreen_init :: unit ProfileScreen_state) = None \<and>
   renderPosts (fst (ProfileScreen_fetchPosts (GetItem (Some ''u1'')) (HttpResponse True (Decoded (Some [])))
       (\<lambda>i. NetworkError) [] (ProfileScreen_init :: unit ProfileScreen_state))) = EmptyText ''No posts yet''"
proof -
  have h1: "''u1'' \<noteq> []" by simp
  have h2: "error (ProfileScreen_init :: unit ProfileScreen_state) = None"
    by (simp add: ProfileScreen_init_def)
  show ?thesis
    using h1 h2 C9_empty_list_rendering[OF h1 h2, of True "\<lambda>i. NetworkError" "[]" "[]"
      "Trending_init :: unit Trending_state"]
    by simp
qed

end
